theory Spec2Isabelle
  imports Main
begin

section \<open>Python values handled by the pipeline translator\<close>

text \<open>
  The translator of \<^verbatim>\<open>pipeline_from_definition.py\<close> works on a decoded configuration:
  strings, numbers, \<^verbatim>\<open>None\<close>, lists, tuples and dicts. What it builds are instances of
  classes found by \<^verbatim>\<open>pydoc.locate\<close>. Both live in one universe of values, since the
  translator writes built objects back into the parameter dict it was given.

  A dict is an association list in insertion order; its keys are pairwise distinct, as
  in Python. \<open>VClass c\<close> is the class (or other callable) of qualified name \<open>c\<close>;
  \<open>VObj c args kwargs\<close> is an instance of class \<open>c\<close>, identified by the arguments its
  constructor received. A float \<open>VFloat m e\<close> stands for \<open>m * 2 ^ e\<close>; the translator
  never looks inside one.
\<close>

datatype pyval =
    VNone
  | VBool bool
  | VInt int
  | VFloat int int
  | VStr string
  | VList "pyval list"
  | VTuple "pyval list"
  | VDict "(pyval \<times> pyval) list"
  | VClass string
  | VObj string "pyval list" "(string \<times> pyval) list"

text \<open>The result of \<^verbatim>\<open>type(step)\<close>, which the last error message reports.\<close>

datatype pytype =
    TNoneType | TBool | TInt | TFloat | TStr | TList | TTuple | TDict | TType
  | TInstance string

fun type_of :: "pyval \<Rightarrow> pytype" where
  "type_of VNone = TNoneType"
| "type_of (VBool _) = TBool"
| "type_of (VInt _) = TInt"
| "type_of (VFloat _ _) = TFloat"
| "type_of (VStr _) = TStr"
| "type_of (VList _) = TList"
| "type_of (VTuple _) = TTuple"
| "type_of (VDict _) = TDict"
| "type_of (VClass _) = TType"
| "type_of (VObj c _ _) = TInstance c"

text \<open>
  The exceptions. The three \<^verbatim>\<open>ValueError\<close>s of \<^verbatim>\<open>_build_step\<close> keep what their message
  formats: the key view, the class and the parameters, the type of the step. The other
  exceptions are raised by the Python operations themselves (calling what is not
  callable, \<^verbatim>\<open>in\<close> on what is not a container, indexing a list by a string, \<^verbatim>\<open>**\<close> on
  what is not a mapping: \<^verbatim>\<open>TypeError\<close>; \<^verbatim>\<open>path.split\<close> on what is not a string:
  \<^verbatim>\<open>AttributeError\<close>). \<open>Raised\<close> is any exception of a collaborator.
\<close>

datatype value_error =
    SingleKey "pyval list"
  | InvalidParams pyval pyval
  | BadStep pytype

datatype exn =
    ValueError value_error
  | TypeError
  | AttributeError
  | KeyError
  | Raised string

section \<open>The collaborators: name resolution and constructors\<close>

text \<open>
  \<^verbatim>\<open>pydoc.locate\<close> and the constructors of the located classes are outside the
  repository; the model takes them as a parameter. \<open>locate env s\<close> is what
  \<^verbatim>\<open>pydoc.locate(s)\<close> returns (\<open>VNone\<close> when nothing is found) or raises;
  \<open>construct env c args kwargs\<close> is what calling class \<open>c\<close> with these positional and
  keyword arguments returns or raises.

  Calling a collaborator is the only effect the translator has on the world. Every
  function below returns, next to its result, the trace of the lookups and constructor
  calls it made, in the order it made them.
\<close>

record env =
  locate :: "string \<Rightarrow> exn + pyval"
  construct :: "string \<Rightarrow> pyval list \<Rightarrow> (string \<times> pyval) list \<Rightarrow> exn + pyval"

datatype event =
    Locate string
  | Construct string "pyval list" "(string \<times> pyval) list"

type_synonym trace = "event list"

definition Pipeline :: pyval where
  "Pipeline = VClass ''sklearn.pipeline.Pipeline''"

definition FeatureUnion :: pyval where
  "FeatureUnion = VClass ''sklearn.pipeline.FeatureUnion''"

text \<open>\<^verbatim>\<open>pydoc.locate(path)\<close> starts with \<^verbatim>\<open>path.split('.')\<close>, which only a string has.\<close>

fun pydoc_locate :: "env \<Rightarrow> pyval \<Rightarrow> (exn + pyval) \<times> trace" where
  "pydoc_locate env (VStr s) = (locate env s, [Locate s])"
| "pydoc_locate env _ = (Inl AttributeError, [])"

text \<open>A call \<^verbatim>\<open>f(*args, **kwargs)\<close>: only a class is callable.\<close>

fun invoke ::
  "env \<Rightarrow> pyval \<Rightarrow> pyval list \<Rightarrow> (string \<times> pyval) list \<Rightarrow> (exn + pyval) \<times> trace"
where
  "invoke env (VClass c) args kwargs = (construct env c args kwargs, [Construct c args kwargs])"
| "invoke env _ args kwargs = (Inl TypeError, [])"

text \<open>
  \<^verbatim>\<open>**params\<close>: the keyword arguments of a dict whose keys are all strings; nothing
  otherwise.
\<close>

fun kwargs_of :: "(pyval \<times> pyval) list \<Rightarrow> (string \<times> pyval) list option" where
  "kwargs_of [] = Some []"
| "kwargs_of ((VStr k, v) # kvs) =
     (case kwargs_of kvs of None \<Rightarrow> None | Some kw \<Rightarrow> Some ((k, v) # kw))"
| "kwargs_of (_ # kvs) = None"

text \<open>
  \<^verbatim>\<open>f(**params)\<close>: a \<^verbatim>\<open>TypeError\<close> when \<open>params\<close> is not a mapping, when \<open>f\<close> is not
  callable or when a key is not a string; the constructor runs in no such case.
\<close>

fun call_kwargs :: "env \<Rightarrow> pyval \<Rightarrow> pyval \<Rightarrow> (exn + pyval) \<times> trace" where
  "call_kwargs env f (VDict kvs) =
     (case kwargs_of kvs of
        None \<Rightarrow> (Inl TypeError, [])
      | Some kw \<Rightarrow> invoke env f [] kw)"
| "call_kwargs env f _ = (Inl TypeError, [])"

section \<open>The Python operations on parameters\<close>

fun starts_with :: "string \<Rightarrow> string \<Rightarrow> bool" where
  "starts_with [] s = True"
| "starts_with (c # k) [] = False"
| "starts_with (c # k) (d # s) = (c = d \<and> starts_with k s)"

fun substring :: "string \<Rightarrow> string \<Rightarrow> bool" where
  "substring k [] = (k = [])"
| "substring k (c # s) = (starts_with k (c # s) \<or> substring k s)"

text \<open>
  \<^verbatim>\<open>k in params\<close> for a string \<open>k\<close>: a key of a dict, an element of a list or tuple, a
  substring of a string; a \<^verbatim>\<open>TypeError\<close> on everything else.
\<close>

fun py_in :: "string \<Rightarrow> pyval \<Rightarrow> exn + bool" where
  "py_in k (VDict kvs) = Inr (VStr k \<in> set (map fst kvs))"
| "py_in k (VList xs) = Inr (VStr k \<in> set xs)"
| "py_in k (VTuple xs) = Inr (VStr k \<in> set xs)"
| "py_in k (VStr s) = Inr (substring k s)"
| "py_in k _ = Inl TypeError"

text \<open>\<^verbatim>\<open>params[k]\<close> for a string \<open>k\<close>: only a dict can be indexed by a string.\<close>

fun py_getitem :: "pyval \<Rightarrow> string \<Rightarrow> exn + pyval" where
  "py_getitem (VDict kvs) k =
     (case map_of kvs (VStr k) of None \<Rightarrow> Inl KeyError | Some v \<Rightarrow> Inr v)"
| "py_getitem _ k = Inl TypeError"

text \<open>\<^verbatim>\<open>d[k] = v\<close> on a dict: the entry of \<open>k\<close> keeps its place, a new key goes last.\<close>

fun dict_set :: "('k \<times> 'v) list \<Rightarrow> 'k \<Rightarrow> 'v \<Rightarrow> ('k \<times> 'v) list" where
  "dict_set [] k v = [(k, v)]"
| "dict_set ((k', v') # kvs) k v =
     (if k' = k then (k, v) # kvs else (k', v') # dict_set kvs k v)"

fun py_setitem :: "pyval \<Rightarrow> string \<Rightarrow> pyval \<Rightarrow> pyval" where
  "py_setitem (VDict kvs) k v = VDict (dict_set kvs (VStr k) v)"
| "py_setitem p k v = p"

text \<open>\<^verbatim>\<open>step.get(key, default)\<close>.\<close>

definition dict_get :: "(pyval \<times> pyval) list \<Rightarrow> pyval \<Rightarrow> pyval \<Rightarrow> pyval" where
  "dict_get kvs k dflt = (case map_of kvs k of None \<Rightarrow> dflt | Some v \<Rightarrow> v)"

text \<open>
  What \<^verbatim>\<open>enumerate(definition)\<close> iterates over: the elements of a list or tuple, the
  keys of a dict, the characters of a string; a \<^verbatim>\<open>TypeError\<close> on everything else.
\<close>

fun py_iter :: "pyval \<Rightarrow> exn + pyval list" where
  "py_iter (VList xs) = Inr xs"
| "py_iter (VTuple xs) = Inr xs"
| "py_iter (VDict kvs) = Inr (map fst kvs)"
| "py_iter (VStr s) = Inr (map (\<lambda>c. VStr [c]) s)"
| "py_iter _ = Inl TypeError"

text \<open>
  The container after its elements were worked on. Only the elements of a list or a
  tuple can be dicts, which the translator changes in place; the keys of a dict and the
  characters of a string are immutable.
\<close>

fun py_rebuild :: "pyval \<Rightarrow> pyval list \<Rightarrow> pyval" where
  "py_rebuild (VList _) xs = VList xs"
| "py_rebuild (VTuple _) xs = VTuple xs"
| "py_rebuild d xs = d"

text \<open>\<^verbatim>\<open>f'step_{i}'\<close>: the decimal digits of the index.\<close>

fun str_of_nat :: "nat \<Rightarrow> string" where
  "str_of_nat n =
     (if n < 10 then [''0123456789'' ! n]
      else str_of_nat (n div 10) @ [''0123456789'' ! (n mod 10)])"

definition step_label :: "nat \<Rightarrow> string" where
  "step_label i = ''step_'' @ str_of_nat i"

section \<open>The translator\<close>

text \<open>
  The list comprehension of \<^verbatim>\<open>_build_branch\<close>,
  \<^verbatim>\<open>[(f'step_{i}', _build_step(step)) for i, step in enumerate(definition)]\<close>,
  over a step function \<open>f\<close>: the steps are built from left to right and the first
  exception ends the loop. A step function returns its result, its argument as the call
  left it, and its trace.
\<close>

fun comprehension ::
  "(pyval \<Rightarrow> (exn + pyval) \<times> pyval \<times> trace) \<Rightarrow> nat \<Rightarrow> pyval list
     \<Rightarrow> (exn + pyval list) \<times> pyval list \<times> trace"
where
  "comprehension f i [] = (Inr [], [], [])"
| "comprehension f i (x # xs) =
     (case f x of
        (Inl e, x', t) \<Rightarrow> (Inl e, x' # xs, t)
      | (Inr obj, x', t) \<Rightarrow>
          (case comprehension f (Suc i) xs of
             (Inl e, xs', t') \<Rightarrow> (Inl e, x' # xs', t @ t')
           | (Inr rest, xs', t') \<Rightarrow>
               (Inr (VTuple [VStr (step_label i), obj] # rest), x' # xs', t @ t')))"

lemma comprehension_cong [fundef_cong]:
  "xs = ys \<Longrightarrow> i = j \<Longrightarrow> (\<And>x. x \<in> set ys \<Longrightarrow> f x = g x)
     \<Longrightarrow> comprehension f i xs = comprehension g j ys"
proof (induction ys arbitrary: xs i j)
  case Nil
  then show ?case by simp
next
  case (Cons y ys)
  have head: "f y = g y"
    using Cons.prems(3) by simp
  have tail: "comprehension f (Suc j) ys = comprehension g (Suc j) ys"
    using Cons.IH [OF refl refl] Cons.prems(3) by simp
  show ?case
    unfolding Cons.prems(1,2) comprehension.simps head tail ..
qed

text \<open>
  Sizes, for the termination of the translator: \<^verbatim>\<open>_build_step\<close> only recurses into a
  value of the step's single entry, \<^verbatim>\<open>_build_branch\<close> only into the elements of its
  argument.
\<close>

lemma map_of_size:
  "map_of kvs k = Some v \<Longrightarrow> size v < size_list (size_prod size size) kvs"
  by (induction kvs) (auto split: if_splits)

lemma py_getitem_size: "py_getitem p k = Inr d \<Longrightarrow> size d < size p"
  by (cases p) (auto split: option.splits dest: map_of_size)

lemma dict_get_single_size:
  "length kvs = 1 \<Longrightarrow> size (dict_get kvs (fst (hd kvs)) dflt) < size (VDict kvs)"
  by (cases kvs) (auto simp: dict_get_def)

lemma elem_size: "x \<in> set xs \<Longrightarrow> size x < size_list size xs"
  by (induction xs) auto

lemma key_size: "(k, v) \<in> set kvs \<Longrightarrow> size k < size_list (size_prod size size) kvs"
  by (induction kvs) auto

lemma py_iter_size:
  assumes "py_iter d = Inr xs" and "x \<in> set xs"
  shows "size x < Suc (size d)"
proof (cases d)
  case (VList ys)
  with assms elem_size [of x ys] show ?thesis by auto
next
  case (VTuple ys)
  with assms elem_size [of x ys] show ?thesis by auto
next
  case (VDict kvs)
  with assms obtain v where "(x, v) \<in> set kvs" by auto
  from key_size [OF this] VDict show ?thesis by simp
qed (insert assms, auto)

text \<open>
  \<^verbatim>\<open>_build_step\<close> and \<^verbatim>\<open>_build_branch\<close>. Each returns what the Python returns or
  raises, its argument as the call left it (the Python assigns into the parameter dict
  of the step, an object the caller still holds), and the trace of the call. The
  definition is a tree: no dict or list object occurs in it twice.
  \<^verbatim>\<open>logger.debug\<close> is left out.

  \<open>constructor_class\<close> is a value: \<open>VNone\<close> for \<^verbatim>\<open>None\<close>, anything else is called. The
  Python gives the parameter the default \<^verbatim>\<open>Union[Pipeline, None]\<close>; every call in the
  file passes \<^verbatim>\<open>None\<close>, so the default is never taken, and the model has none.
\<close>

function
  build_step :: "env \<Rightarrow> pyval \<Rightarrow> (exn + pyval) \<times> pyval \<times> trace" and
  build_branch :: "env \<Rightarrow> pyval \<Rightarrow> pyval \<Rightarrow> (exn + pyval) \<times> pyval \<times> trace"
where
  "build_step env step =
     (case step of
        VDict kvs \<Rightarrow>
          if length kvs \<noteq> 1 then (Inl (ValueError (SingleKey (map fst kvs))), step, [])
          else
            let import_str = fst (hd kvs);
                params = dict_get kvs import_str (VDict [])
            in
            (case pydoc_locate env import_str of
               (Inl e, t1) \<Rightarrow> (Inl e, step, t1)
             | (Inr StepClass, t1) \<Rightarrow>
                 if StepClass = FeatureUnion \<or> StepClass = Pipeline then
                   (case py_in ''transformer_list'' params of
                      Inl e \<Rightarrow> (Inl e, step, t1)
                    | Inr True \<Rightarrow>
                        (case py_getitem params ''transformer_list'' of
                           Inl e \<Rightarrow> (Inl e, step, t1)
                         | Inr d \<Rightarrow>
                             (case build_branch env d VNone of
                                (Inl e, d', t2) \<Rightarrow>
                                  (Inl e,
                                   VDict [(import_str, py_setitem params ''transformer_list'' d')],
                                   t1 @ t2)
                              | (Inr children, d', t2) \<Rightarrow>
                                  let params' = py_setitem params ''transformer_list'' children;
                                      (r, t3) = call_kwargs env StepClass params'
                                  in (r, VDict [(import_str, params')], t1 @ t2 @ t3)))
                    | Inr False \<Rightarrow>
                        (case py_in ''steps'' params of
                           Inl e \<Rightarrow> (Inl e, step, t1)
                         | Inr True \<Rightarrow>
                             (case py_getitem params ''steps'' of
                                Inl e \<Rightarrow> (Inl e, step, t1)
                              | Inr d \<Rightarrow>
                                  (case build_branch env d VNone of
                                     (Inl e, d', t2) \<Rightarrow>
                                       (Inl e,
                                        VDict [(import_str, py_setitem params ''steps'' d')],
                                        t1 @ t2)
                                   | (Inr children, d', t2) \<Rightarrow>
                                       let params' = py_setitem params ''steps'' children;
                                           (r, t3) = call_kwargs env StepClass params'
                                       in (r, VDict [(import_str, params')], t1 @ t2 @ t3)))
                         | Inr False \<Rightarrow>
                             if type_of params = TTuple \<or> type_of params = TList then
                               (case build_branch env params VNone of
                                  (Inl e, params', t2) \<Rightarrow>
                                    (Inl e, VDict [(import_str, params')], t1 @ t2)
                                | (Inr children, params', t2) \<Rightarrow>
                                    let (r, t3) = invoke env StepClass [children] []
                                    in (r, VDict [(import_str, params')], t1 @ t2 @ t3))
                             else
                               (Inl (ValueError (InvalidParams StepClass params)), step, t1)))
                 else
                   let (r, t2) = call_kwargs env StepClass params
                   in (r, step, t1 @ t2))
      | VStr s \<Rightarrow>
          (case pydoc_locate env step of
             (Inl e, t1) \<Rightarrow> (Inl e, step, t1)
           | (Inr StepClass, t1) \<Rightarrow>
               let (r, t2) = invoke env StepClass [] []
               in (r, step, t1 @ t2))
      | _ \<Rightarrow> (Inl (ValueError (BadStep (type_of step))), step, []))"
| "build_branch env definition constructor_class =
     (case py_iter definition of
        Inl e \<Rightarrow> (Inl e, definition, [])
      | Inr xs \<Rightarrow>
          (case comprehension (build_step env) 0 xs of
             (Inl e, xs', t1) \<Rightarrow> (Inl e, py_rebuild definition xs', t1)
           | (Inr steps, xs', t1) \<Rightarrow>
               if constructor_class = VNone then
                 (Inr (VList steps), py_rebuild definition xs', t1)
               else
                 let (r, t2) = invoke env constructor_class [VList steps] []
                 in (r, py_rebuild definition xs', t1 @ t2)))"
  by pat_completeness auto

termination
proof (relation "measure (\<lambda>x. case x of Inl (env, v) \<Rightarrow> 2 * size v + 1
                                    | Inr (env, v, c) \<Rightarrow> 2 * size v + 2)", goal_cases)
  case 1
  show ?case by simp
next
  case (2 env step kvs import_str params r t1 StepClass b d)
  from py_getitem_size [OF 2(10)] dict_get_single_size [of kvs "VDict []"] 2(2)
  show ?case using 2(1,3,4) by simp
next
  case (3 env step kvs import_str params r t1 StepClass b b' d)
  from py_getitem_size [OF 3(12)] dict_get_single_size [of kvs "VDict []"] 3(2)
  show ?case using 3(1,3,4) by simp
next
  case (4 env step kvs import_str params r t1 StepClass b b')
  from dict_get_single_size [of kvs "VDict []"] 4(2)
  show ?case using 4(1,3,4) by simp
next
  case (5 env defn constructor_class xs x)
  from py_iter_size [OF 5(1) 5(2)] show ?case by simp
qed

declare build_step.simps [simp del] build_branch.simps [simp del]

text \<open>The public entry point.\<close>

definition pipeline_from_definition :: "env \<Rightarrow> pyval \<Rightarrow> (exn + pyval) \<times> pyval \<times> trace" where
  "pipeline_from_definition env pipe_definition = build_step env pipe_definition"

section \<open>A registry for concrete runs\<close>

text \<open>
  A registry that resolves the two containers and two leaf types \<^verbatim>\<open>TypeA\<close> and
  \<^verbatim>\<open>TypeB\<close>, and nothing else; its constructors record the arguments they receive.
\<close>

definition fake_registry :: env where
  "fake_registry =
     \<lparr> locate = (\<lambda>s. if s = ''sklearn.pipeline.Pipeline'' then Inr Pipeline
                       else if s = ''sklearn.pipeline.FeatureUnion'' then Inr FeatureUnion
                       else if s = ''TypeA'' \<or> s = ''TypeB'' then Inr (VClass s)
                       else Inr VNone),
       construct = (\<lambda>c args kw. Inr (VObj c args kw)) \<rparr>"


text \<open>
  The definition \<^verbatim>\<open>{'sklearn.pipeline.Pipeline': {'steps': ['TypeA']}}\<close>.
\<close>

definition example_definition :: pyval where
  "example_definition =
     VDict [(VStr ''sklearn.pipeline.Pipeline'',
             VDict [(VStr ''steps'', VList [VStr ''TypeA''])])]"

section \<open>Labeled children\<close>

text \<open>
  The list \<^verbatim>\<open>[('step_i', obj_i), ...]\<close> for the objects \<open>objs\<close>, numbered from \<open>i\<close>.
\<close>

definition labeled_children :: "nat \<Rightarrow> pyval list \<Rightarrow> pyval list" where
  "labeled_children i objs =
     map (\<lambda>(j, obj). VTuple [VStr (step_label j), obj]) (enumerate i objs)"

lemma labeled_children_Nil [simp]: "labeled_children i [] = []"
  by (simp add: labeled_children_def)

lemma labeled_children_Cons [simp]:
  "labeled_children i (obj # objs) =
     VTuple [VStr (step_label i), obj] # labeled_children (Suc i) objs"
  by (simp add: labeled_children_def)

lemma length_labeled_children [simp]: "length (labeled_children i objs) = length objs"
  by (simp add: labeled_children_def)


section \<open>The cases of the step resolver\<close>

lemma build_step_str:
  "build_step env (VStr s) =
     (case locate env s of
        Inl e \<Rightarrow> (Inl e, VStr s, [Locate s])
      | Inr StepClass \<Rightarrow>
          (fst (invoke env StepClass [] []), VStr s, Locate s # snd (invoke env StepClass [] [])))"
  by (simp add: build_step.simps split: sum.splits prod.splits)

lemma build_step_keys:
  "length kvs \<noteq> 1 \<Longrightarrow>
     build_step env (VDict kvs) = (Inl (ValueError (SingleKey (map fst kvs))), VDict kvs, [])"
  by (simp add: build_step.simps)

lemma build_step_other:
  "type_of step \<noteq> TStr \<Longrightarrow> type_of step \<noteq> TDict \<Longrightarrow>
     build_step env step = (Inl (ValueError (BadStep (type_of step))), step, [])"
  by (cases step) (simp_all add: build_step.simps)

lemma call_kwargs_not_class:
  "type_of f \<noteq> TType \<Longrightarrow> call_kwargs env f params = (Inl TypeError, [])"
  by (cases params; cases f) (simp_all split: option.splits)

lemma not_class_not_container:
  "type_of cls \<noteq> TType \<Longrightarrow> cls \<noteq> FeatureUnion \<and> cls \<noteq> Pipeline"
  by (auto simp: FeatureUnion_def Pipeline_def)

lemma build_step_leaf:
  assumes "locate env k = Inr StepClass"
    and "StepClass \<noteq> FeatureUnion" and "StepClass \<noteq> Pipeline"
  shows "build_step env (VDict [(VStr k, params)]) =
           (fst (call_kwargs env StepClass params), VDict [(VStr k, params)],
            Locate k # snd (call_kwargs env StepClass params))"
  using assms
  by (simp add: build_step.simps [of env "VDict [(VStr k, params)]"] dict_get_def
      split: prod.splits)



text \<open>A container whose parameters are a dict without children.\<close>

lemma build_step_container_invalid:
  assumes "locate env k = Inr StepClass"
    and "StepClass = FeatureUnion \<or> StepClass = Pipeline"
    and "py_in ''transformer_list'' params = Inr False"
    and "py_in ''steps'' params = Inr False"
    and "type_of params \<noteq> TTuple" and "type_of params \<noteq> TList"
  shows "build_step env (VDict [(VStr k, params)]) =
           (Inl (ValueError (InvalidParams StepClass params)), VDict [(VStr k, params)],
            [Locate k])"
  using assms
  by (simp add: build_step.simps [of env "VDict [(VStr k, params)]"] dict_get_def)

lemma kwargs_of_map [simp]: "kwargs_of (map (\<lambda>(k, v). (VStr k, v)) kw) = Some kw"
  by (induction kw) auto

lemma kwargs_of_Some: "kwargs_of ps = Some kw \<Longrightarrow> ps = map (\<lambda>(k, v). (VStr k, v)) kw"
  by (induction ps arbitrary: kw rule: kwargs_of.induct) (auto split: option.splits)


lemma build_step_container_in_error:
  assumes "locate env k = Inr StepClass"
    and "StepClass = FeatureUnion \<or> StepClass = Pipeline"
    and "py_in ''transformer_list'' params = Inl e \<or>
         py_in ''transformer_list'' params = Inr False \<and> py_in ''steps'' params = Inl e"
  shows "build_step env (VDict [(VStr k, params)]) = (Inl e, VDict [(VStr k, params)], [Locate k])"
proof -
  have container: "(StepClass = FeatureUnion \<or> StepClass = Pipeline) = True"
    using assms(2) by simp
  from assms(3) show ?thesis
    by (elim disjE conjE)
      (simp_all add: build_step.simps [of env "VDict [(VStr k, params)]"] dict_get_def
        assms(1) container)
qed

lemma build_step_container_getitem:
  assumes "locate env k = Inr StepClass"
    and "StepClass = FeatureUnion \<or> StepClass = Pipeline"
    and "name = ''transformer_list'' \<and> py_in ''transformer_list'' params = Inr True \<or>
         name = ''steps'' \<and> py_in ''transformer_list'' params = Inr False
           \<and> py_in ''steps'' params = Inr True"
  shows "build_step env (VDict [(VStr k, params)]) =
           (case py_getitem params name of
              Inl e \<Rightarrow> (Inl e, VDict [(VStr k, params)], [Locate k])
            | Inr d \<Rightarrow>
                (case build_branch env d VNone of
                   (Inl e, d', t2) \<Rightarrow>
                     (Inl e, VDict [(VStr k, py_setitem params name d')], Locate k # t2)
                 | (Inr children, d', t2) \<Rightarrow>
                     (fst (call_kwargs env StepClass (py_setitem params name children)),
                      VDict [(VStr k, py_setitem params name children)],
                      Locate k # t2 @
                        snd (call_kwargs env StepClass (py_setitem params name children)))))"
proof -
  have container: "(StepClass = FeatureUnion \<or> StepClass = Pipeline) = True"
    using assms(2) by simp
  from assms(3) show ?thesis
  proof (elim disjE conjE)
    assume "name = ''transformer_list''" "py_in ''transformer_list'' params = Inr True"
    then show ?thesis
      by (simp add: build_step.simps [of env "VDict [(VStr k, params)]"] dict_get_def
          assms(1) container Let_def case_prod_unfold split: sum.splits)
  next
    assume "name = ''steps''" "py_in ''transformer_list'' params = Inr False"
      "py_in ''steps'' params = Inr True"
    then show ?thesis
      by (simp add: build_step.simps [of env "VDict [(VStr k, params)]"] dict_get_def
          assms(1) container Let_def case_prod_unfold split: sum.splits)
  qed
qed

lemma build_step_container_iterable:
  assumes "locate env k = Inr StepClass"
    and "StepClass = FeatureUnion \<or> StepClass = Pipeline"
    and "py_in ''transformer_list'' params = Inr False"
    and "py_in ''steps'' params = Inr False"
    and "type_of params = TTuple \<or> type_of params = TList"
  shows "build_step env (VDict [(VStr k, params)]) =
           (case build_branch env params VNone of
              (Inl e, params', t2) \<Rightarrow> (Inl e, VDict [(VStr k, params')], Locate k # t2)
            | (Inr children, params', t2) \<Rightarrow>
                (fst (invoke env StepClass [children] []), VDict [(VStr k, params')],
                 Locate k # t2 @ snd (invoke env StepClass [children] [])))"
proof -
  have container: "(StepClass = FeatureUnion \<or> StepClass = Pipeline) = True"
    using assms(2) by simp
  have seq: "(type_of params = TTuple \<or> type_of params = TList) = True"
    using assms(5) by simp
  show ?thesis
    by (simp add: build_step.simps [of env "VDict [(VStr k, params)]"] dict_get_def
        assms(1,3,4) container seq Let_def case_prod_unfold split: sum.splits)
qed

lemma build_step_locate_error:
  "locate env k = Inl e \<Longrightarrow>
     build_step env (VDict [(VStr k, params)]) = (Inl e, VDict [(VStr k, params)], [Locate k])"
  by (simp add: build_step.simps [of env "VDict [(VStr k, params)]"] dict_get_def)

lemma build_step_key_not_str:
  "type_of key \<noteq> TStr \<Longrightarrow>
     build_step env (VDict [(key, params)]) = (Inl AttributeError, VDict [(key, params)], [])"
  by (cases key) (simp_all add: build_step.simps dict_get_def)

section \<open>The branch builder\<close>


lemma comprehension_Inr:
  "fst (comprehension f i xs) = Inr steps \<Longrightarrow>
     \<exists>objs. map (\<lambda>x. fst (f x)) xs = map Inr objs \<and> steps = labeled_children i objs"
proof (induction xs arbitrary: i steps)
  case Nil
  then show ?case by simp
next
  case (Cons x xs)
  obtain r x' t where fx: "f x = (r, x', t)"
    by (cases "f x")
  obtain r' xs' t' where rest: "comprehension f (Suc i) xs = (r', xs', t')"
    by (cases "comprehension f (Suc i) xs")
  from Cons.prems fx rest obtain obj rest_steps where
    r: "r = Inr obj" and r': "r' = Inr rest_steps"
    and steps: "steps = VTuple [VStr (step_label i), obj] # rest_steps"
    by (auto split: sum.splits)
  from Cons.IH [of "Suc i" rest_steps] rest r' obtain objs where
    "map (\<lambda>x. fst (f x)) xs = map Inr objs" "rest_steps = labeled_children (Suc i) objs"
    by auto
  then show ?case
    using fx r steps by (intro exI [of _ "obj # objs"]) simp
qed

lemma comprehension_Inl:
  "fst (comprehension f i xs) = Inl e \<Longrightarrow> \<exists>x\<in>set xs. fst (f x) = Inl e"
proof (induction xs arbitrary: i)
  case Nil
  then show ?case by simp
next
  case (Cons x xs)
  obtain r x' t where fx: "f x = (r, x', t)"
    by (cases "f x")
  obtain r' xs' t' where rest: "comprehension f (Suc i) xs = (r', xs', t')"
    by (cases "comprehension f (Suc i) xs")
  show ?case
  proof (cases r)
    case (Inl e')
    with Cons.prems fx show ?thesis by simp
  next
    case (Inr obj)
    with Cons.prems fx rest have "r' = Inl e"
      by (auto split: sum.splits)
    with Cons.IH [of "Suc i"] rest show ?thesis by simp
  qed
qed

lemma build_branch_iter:
  "py_iter defn = Inr xs \<Longrightarrow>
     build_branch env defn ctor =
       (case comprehension (build_step env) 0 xs of
          (Inl e, xs', t1) \<Rightarrow> (Inl e, py_rebuild defn xs', t1)
        | (Inr steps, xs', t1) \<Rightarrow>
            if ctor = VNone then (Inr (VList steps), py_rebuild defn xs', t1)
            else (fst (invoke env ctor [VList steps] []), py_rebuild defn xs',
                  t1 @ snd (invoke env ctor [VList steps] [])))"
  by (simp add: build_branch.simps split: prod.splits sum.splits)





lemma comprehension_first_error:
  assumes "map (\<lambda>y. fst (f y)) pre = map Inr objs" and "fst (f x) = Inl e"
  shows "comprehension f i (pre @ x # post) =
           (Inl e, map (\<lambda>y. fst (snd (f y))) pre @ fst (snd (f x)) # post,
            concat (map (\<lambda>y. snd (snd (f y))) pre) @ snd (snd (f x)))"
  using assms(1)
proof (induction pre arbitrary: i objs)
  case Nil
  obtain r x' t where fx: "f x = (r, x', t)"
    by (cases "f x")
  with assms(2) show ?case by simp
next
  case (Cons y pre)
  then obtain obj objs' where objs: "objs = obj # objs'"
    by (cases objs) auto
  with Cons.prems have hd: "fst (f y) = Inr obj"
    and tl: "map (\<lambda>y. fst (f y)) pre = map Inr objs'"
    by simp_all
  obtain y' t where fy: "f y = (Inr obj, y', t)"
    using hd by (cases "f y") auto
  show ?case
    by (simp add: fy Cons.IH [OF tl])
qed

text \<open>
  The first error ends the branch. When the children before \<open>x\<close> resolve and \<open>x\<close> raises,
  \<^verbatim>\<open>_build_branch\<close> raises the exception of \<open>x\<close>, whatever the constructor; the trace is
  that of the children up to \<open>x\<close>, so no later child is looked at and the constructor is
  not called.
\<close>

theorem first_error_aborts_branch:
  assumes "py_iter defn = Inr (pre @ x # post)"
    and "map (\<lambda>y. fst (build_step env y)) pre = map Inr objs"
    and "fst (build_step env x) = Inl e"
  shows "fst (build_branch env defn ctor) = Inl e
       \<and> snd (snd (build_branch env defn ctor)) =
           concat (map (\<lambda>y. snd (snd (build_step env y))) pre) @ snd (snd (build_step env x))"
  by (simp add: build_branch_iter [OF assms(1)] comprehension_first_error [OF assms(2,3)])

theorem first_error_aborts_branch_witness:
  "py_iter (VList [VStr ''TypeA'', VStr ''NoSuchType'', VStr ''TypeB'']) =
     Inr ([VStr ''TypeA''] @ VStr ''NoSuchType'' # [VStr ''TypeB''])
   \<and> map (\<lambda>y. fst (build_step fake_registry y)) [VStr ''TypeA''] = map Inr [VObj ''TypeA'' [] []]
   \<and> fst (build_step fake_registry (VStr ''NoSuchType'')) = Inl TypeError
   \<and> fst (build_branch fake_registry
        (VList [VStr ''TypeA'', VStr ''NoSuchType'', VStr ''TypeB''])
        (VClass ''sklearn.pipeline.Pipeline'')) = Inl TypeError
   \<and> snd (snd (build_branch fake_registry
        (VList [VStr ''TypeA'', VStr ''NoSuchType'', VStr ''TypeB''])
        (VClass ''sklearn.pipeline.Pipeline''))) =
      [Locate ''TypeA'', Construct ''TypeA'' [] [], Locate ''NoSuchType'']"
proof -
  have h1: "py_iter (VList [VStr ''TypeA'', VStr ''NoSuchType'', VStr ''TypeB'']) =
     Inr ([VStr ''TypeA''] @ VStr ''NoSuchType'' # [VStr ''TypeB''])"
    by simp
  have h2: "map (\<lambda>y. fst (build_step fake_registry y)) [VStr ''TypeA''] =
      map Inr [VObj ''TypeA'' [] []]"
    by code_simp
  have h3: "fst (build_step fake_registry (VStr ''NoSuchType'')) = Inl TypeError"
    by code_simp
  have t1: "snd (snd (build_step fake_registry (VStr ''TypeA''))) =
      [Locate ''TypeA'', Construct ''TypeA'' [] []]"
    by code_simp
  have t2: "snd (snd (build_step fake_registry (VStr ''NoSuchType''))) = [Locate ''NoSuchType'']"
    by code_simp
  from first_error_aborts_branch [OF h1 h2 h3, of "VClass ''sklearn.pipeline.Pipeline''"]
    h1 h2 h3 t1 t2
  show ?thesis by simp
qed

section \<open>Leaves\<close>

text \<open>
  Claim C4. A bare name that the registry resolves to a class is built by calling the
  class with no argument, and that call's result is what the resolver returns. A
  single-key mapping whose key resolves to a class other than the two containers and
  whose value maps parameter names to values is built by calling the class with exactly
  these parameters as keyword arguments, in their order, and that call's result is what
  the resolver returns. In both cases the registry is asked once and the constructor is
  called once.
\<close>

theorem leaf_constructor_call:
  assumes "locate env name = Inr (VClass c)"
  shows "build_step env (VStr name) =
           (construct env c [] [], VStr name, [Locate name, Construct c [] []])
       \<and> (VClass c \<noteq> Pipeline \<and> VClass c \<noteq> FeatureUnion \<longrightarrow>
            build_step env (VDict [(VStr name, VDict (map (\<lambda>(k, v). (VStr k, v)) kw))]) =
              (construct env c [] kw,
               VDict [(VStr name, VDict (map (\<lambda>(k, v). (VStr k, v)) kw))],
               [Locate name, Construct c [] kw]))"
  using assms build_step_leaf [OF assms, of "VDict (map (\<lambda>(k, v). (VStr k, v)) kw)"]
  by (simp add: build_step_str)

theorem leaf_constructor_call_witness:
  "locate fake_registry ''TypeB'' = Inr (VClass ''TypeB'')
   \<and> VClass ''TypeB'' \<noteq> Pipeline \<and> VClass ''TypeB'' \<noteq> FeatureUnion
   \<and> build_step fake_registry (VStr ''TypeB'') =
       (Inr (VObj ''TypeB'' [] []), VStr ''TypeB'', [Locate ''TypeB'', Construct ''TypeB'' [] []])
   \<and> build_step fake_registry (VDict [(VStr ''TypeB'', VDict [(VStr ''x'', VInt 3)])]) =
       (Inr (VObj ''TypeB'' [] [(''x'', VInt 3)]),
        VDict [(VStr ''TypeB'', VDict [(VStr ''x'', VInt 3)])],
        [Locate ''TypeB'', Construct ''TypeB'' [] [(''x'', VInt 3)]])"
proof -
  have h: "locate fake_registry ''TypeB'' = Inr (VClass ''TypeB'')"
    by (simp add: fake_registry_def)
  have n: "VClass ''TypeB'' \<noteq> Pipeline \<and> VClass ''TypeB'' \<noteq> FeatureUnion"
    by (simp add: Pipeline_def FeatureUnion_def)
  have c: "construct fake_registry c a k = Inr (VObj c a k)" for c a k
    by (simp add: fake_registry_def)
  from leaf_constructor_call [OF h, of "[(''x'', VInt 3)]"] h n
  show ?thesis by (simp add: c)
qed

text \<open>
  Claim C5. When the registry resolves a name to nothing callable (\<^verbatim>\<open>pydoc.locate\<close> gives
  \<^verbatim>\<open>None\<close>, or something that is not a class), the resolver fails, for the bare name and
  for a single-key mapping with this name as key and any value, and it calls no
  constructor: the trace holds the lookup alone. The Python has no exception class of
  its own for this; what it raises is the \<^verbatim>\<open>TypeError\<close> of calling what is not callable.
\<close>

theorem unresolvable_type_error:
  assumes "locate env name = Inr cls" and "type_of cls \<noteq> TType"
  shows "build_step env (VStr name) = (Inl TypeError, VStr name, [Locate name])
       \<and> build_step env (VDict [(VStr name, params)]) =
           (Inl TypeError, VDict [(VStr name, params)], [Locate name])"
proof -
  have "invoke env cls [] [] = (Inl TypeError, [])"
    using assms(2) by (cases cls) simp_all
  then have bare: "build_step env (VStr name) = (Inl TypeError, VStr name, [Locate name])"
    using assms(1) by (simp add: build_step_str)
  have "build_step env (VDict [(VStr name, params)]) =
          (Inl TypeError, VDict [(VStr name, params)], [Locate name])"
    using build_step_leaf [OF assms(1), of params] not_class_not_container [OF assms(2)]
      call_kwargs_not_class [OF assms(2), of env params]
    by simp
  with bare show ?thesis by simp
qed

theorem unresolvable_type_error_witness:
  "locate fake_registry ''NoSuchType'' = Inr VNone \<and> type_of VNone \<noteq> TType
   \<and> build_step fake_registry (VStr ''NoSuchType'') =
       (Inl TypeError, VStr ''NoSuchType'', [Locate ''NoSuchType''])
   \<and> build_step fake_registry (VDict [(VStr ''NoSuchType'', VDict [(VStr ''x'', VInt 3)])]) =
       (Inl TypeError, VDict [(VStr ''NoSuchType'', VDict [(VStr ''x'', VInt 3)])],
        [Locate ''NoSuchType''])"
proof -
  have h: "locate fake_registry ''NoSuchType'' = Inr VNone"
    by (simp add: fake_registry_def)
  have t: "type_of VNone \<noteq> TType"
    by simp
  from unresolvable_type_error [OF h t, of "VDict [(VStr ''x'', VInt 3)]"] h t
  show ?thesis by simp
qed

text \<open>
  Claim C10. The empty mapping is rejected by the single-key check, with the
  \<^verbatim>\<open>ValueError\<close> that names its (empty) key view, before any lookup and any constructor
  call: the trace is empty, whatever the registry.
\<close>

theorem empty_mapping_rejected:
  "build_step env (VDict []) = (Inl (ValueError (SingleKey [])), VDict [], [])"
  by (simp add: build_step_keys)

section \<open>Containers\<close>







section \<open>Where a \<^verbatim>\<open>ValueError\<close> comes from\<close>

lemma invoke_ValueError:
  "fst (invoke env f a kw) = Inl (ValueError m) \<Longrightarrow> \<exists>c. construct env c a kw = Inl (ValueError m)"
  by (cases f) auto

lemma call_kwargs_ValueError:
  "fst (call_kwargs env f p) = Inl (ValueError m) \<Longrightarrow>
     \<exists>c kw. construct env c [] kw = Inl (ValueError m)"
  by (cases p) (auto split: option.splits dest!: invoke_ValueError)

lemma py_in_Inl: "py_in k p = Inl e \<Longrightarrow> e = TypeError"
  by (cases p) auto

lemma py_getitem_Inl: "py_getitem p k = Inl e \<Longrightarrow> e = TypeError \<or> e = KeyError"
  by (cases p) (auto split: option.splits)

lemma build_branch_ValueError:
  assumes "fst (build_branch env d VNone) = Inl (ValueError m)"
  shows "\<exists>xs x. py_iter d = Inr xs \<and> x \<in> set xs \<and> fst (build_step env x) = Inl (ValueError m)"
proof (cases "py_iter d")
  case (Inl e)
  then have "e = TypeError" by (cases d) auto
  with Inl assms show ?thesis by (simp add: build_branch.simps)
next
  case (Inr xs)
  obtain r xs' t where c: "comprehension (build_step env) 0 xs = (r, xs', t)"
    by (cases "comprehension (build_step env) 0 xs")
  with Inr assms have "r = Inl (ValueError m)"
    by (auto simp: build_branch_iter split: sum.splits)
  with c comprehension_Inl [of "build_step env" 0 xs "ValueError m"] Inr
  show ?thesis by auto
qed

lemma build_step_ValueError:
  assumes loc: "\<And>s. locate env s \<noteq> Inl (ValueError m)"
    and con: "\<And>c a kw. construct env c a kw \<noteq> Inl (ValueError m)"
    and err: "fst (build_step env step) = Inl (ValueError m)"
  shows "(\<exists>kvs. step = VDict kvs \<and> length kvs \<noteq> 1 \<and> m = SingleKey (map fst kvs))
       \<or> (type_of step \<noteq> TStr \<and> type_of step \<noteq> TDict \<and> m = BadStep (type_of step))
       \<or> (\<exists>k params cls. step = VDict [(VStr k, params)] \<and> locate env k = Inr cls
            \<and> (cls = FeatureUnion \<or> cls = Pipeline)
            \<and> py_in ''transformer_list'' params = Inr False
            \<and> py_in ''steps'' params = Inr False
            \<and> type_of params \<noteq> TTuple \<and> type_of params \<noteq> TList
            \<and> m = InvalidParams cls params)
       \<or> (\<exists>k params d xs x. step = VDict [(VStr k, params)]
            \<and> (py_getitem params ''transformer_list'' = Inr d
                \<or> py_getitem params ''steps'' = Inr d \<or> d = params)
            \<and> py_iter d = Inr xs \<and> x \<in> set xs
            \<and> fst (build_step env x) = Inl (ValueError m))"
    (is "?keys \<or> ?kind \<or> ?params \<or> ?child")
proof -
  have no_invoke: "fst (invoke env f a kw) \<noteq> Inl (ValueError m)" for f a kw
    using invoke_ValueError con by blast
  have no_call: "fst (call_kwargs env f p) \<noteq> Inl (ValueError m)" for f p
    using call_kwargs_ValueError con by blast
  consider (str) s where "step = VStr s"
    | (many) kvs where "step = VDict kvs" "length kvs \<noteq> 1"
    | (single) key params where "step = VDict [(key, params)]"
    | (other) "type_of step \<noteq> TStr" "type_of step \<noteq> TDict"
  proof (cases step)
    case (VDict kvs)
    show ?thesis
    proof (cases "length kvs = 1")
      case True
      then obtain key params where "kvs = [(key, params)]"
        by (cases kvs) auto
      with VDict single show ?thesis by blast
    next
      case False
      with VDict many show ?thesis by blast
    qed
  qed (simp_all add: str other)
  then show ?thesis
  proof cases
    case (str s)
    have False
    proof (cases "locate env s")
      case (Inl e)
      with err str loc [of s] show False by (simp add: build_step_str)
    next
      case (Inr cls)
      with err str no_invoke [of cls "[]" "[]"] show False by (simp add: build_step_str)
    qed
    then show ?thesis ..
  next
    case (many kvs)
    with err have ?keys by (simp add: build_step_keys)
    then show ?thesis by (rule disjI1)
  next
    case other
    with err have ?kind by (simp add: build_step_other)
    then show ?thesis by (rule disjI2 [OF disjI1])
  next
    case (single key params)
    show ?thesis
    proof (cases "type_of key = TStr")
      case False
      with err single have False by (simp add: build_step_key_not_str)
      then show ?thesis ..
    next
      case True
      then obtain k where key: "key = VStr k"
        by (cases key) auto
      note step = single [unfolded key]
      note err' = err [unfolded step]
      show ?thesis
      proof (cases "locate env k")
        case (Inl e)
        with err' loc [of k] have False
          by (simp add: build_step_locate_error)
        then show ?thesis ..
      next
        case located: (Inr cls)
        show ?thesis
        proof (cases "cls = FeatureUnion \<or> cls = Pipeline")
          case False
          with err' no_call [of cls params] build_step_leaf [OF located, of params] have False
            by simp
          then show ?thesis ..
        next
          case container: True
          have from_branch: ?child
            if d: "py_getitem params ''transformer_list'' = Inr d
                   \<or> py_getitem params ''steps'' = Inr d \<or> d = params"
              and b: "fst (build_branch env d VNone) = Inl (ValueError m)" for d
          proof -
            from build_branch_ValueError [OF b] obtain xs x where
              "py_iter d = Inr xs" "x \<in> set xs" "fst (build_step env x) = Inl (ValueError m)"
              by blast
            with d step show ?child by blast
          qed
          have via_getitem: ?child
            if sel: "name = ''transformer_list'' \<and> py_in ''transformer_list'' params = Inr True \<or>
                     name = ''steps'' \<and> py_in ''transformer_list'' params = Inr False
                       \<and> py_in ''steps'' params = Inr True" for name
          proof -
            note unf = build_step_container_getitem [OF located container sel]
            show ?child
            proof (cases "py_getitem params name")
              case (Inl e)
              with py_getitem_Inl [of params name e] err' have False
                by (auto simp: unf)
              then show ?thesis ..
            next
              case got: (Inr d)
              obtain r d' t2 where bb: "build_branch env d VNone = (r, d', t2)"
                by (cases "build_branch env d VNone")
              show ?thesis
              proof (cases r)
                case (Inl e)
                with err' got bb have "fst (build_branch env d VNone) = Inl (ValueError m)"
                  by (simp add: unf)
                moreover from sel got have "py_getitem params ''transformer_list'' = Inr d
                     \<or> py_getitem params ''steps'' = Inr d \<or> d = params"
                  by auto
                ultimately show ?thesis by (rule from_branch [rotated])
              next
                case (Inr children)
                with err' got bb no_call [of cls "py_setitem params name children"] have False
                  by (simp add: unf)
                then show ?thesis ..
              qed
            qed
          qed
          have child: "?child \<Longrightarrow> ?thesis"
            by (rule disjI2 [OF disjI2 [OF disjI2]])
          show ?thesis
          proof (cases "py_in ''transformer_list'' params")
            case (Inl e)
            with err' build_step_container_in_error [OF located container, of params e]
              py_in_Inl [of "''transformer_list''" params e]
            have False by simp
            then show ?thesis ..
          next
            case (Inr b)
            show ?thesis
            proof (cases b)
              case True
              with Inr have "py_in ''transformer_list'' params = Inr True" by simp
              then show ?thesis by (intro child via_getitem [of "''transformer_list''"]) simp
            next
              case False
              with Inr have tl: "py_in ''transformer_list'' params = Inr False" by simp
              show ?thesis
              proof (cases "py_in ''steps'' params")
                case (Inl e)
                with err' tl build_step_container_in_error [OF located container, of params e]
                  py_in_Inl [of "''steps''" params e]
                have False by simp
                then show ?thesis ..
              next
                case (Inr b')
                show ?thesis
                proof (cases b')
                  case True
                  with Inr have "py_in ''steps'' params = Inr True" by simp
                  with tl show ?thesis by (intro child via_getitem [of "''steps''"]) simp
                next
                  case False
                  with Inr have st: "py_in ''steps'' params = Inr False" by simp
                  show ?thesis
                  proof (cases "type_of params = TTuple \<or> type_of params = TList")
                    case True
                    note unf = build_step_container_iterable [OF located container tl st True]
                    obtain r p' t2 where bb: "build_branch env params VNone = (r, p', t2)"
                      by (cases "build_branch env params VNone")
                    show ?thesis
                    proof (cases r)
                      case (Inl e)
                      with err' bb have "fst (build_branch env params VNone) = Inl (ValueError m)"
                        by (simp add: unf)
                      then show ?thesis by (intro child from_branch [of params]) simp_all
                    next
                      case (Inr children)
                      with err' bb no_invoke [of cls "[children]" "[]"] have False
                        by (simp add: unf)
                      then show ?thesis ..
                    qed
                  next
                    case False
                    then have not_seq: "type_of params \<noteq> TTuple" "type_of params \<noteq> TList"
                      by simp_all
                    from err' build_step_container_invalid [OF located container tl st not_seq]
                    have "m = InvalidParams cls params" by simp
                    with step located container tl st not_seq have ?params
                      by blast
                    then show ?thesis by (rule disjI2 [OF disjI2 [OF disjI1]])
                  qed
                qed
              qed
            qed
          qed
        qed
      qed
    qed
  qed
qed

text \<open>
  Claim C6, as the code has it. The resolver raises its \<^verbatim>\<open>ValueError\<close> (the malformed
  definition error of the specification) at a node in these cases, each before any
  constructor is called:
  \<^item> a mapping whose number of keys is not one, that is more than one key or none; the
    error holds the key view;
  \<^item> a node that is neither a string nor a mapping; the error holds the type of the node;
  \<^item> a single-key mapping whose key resolves to a container and whose value is a mapping
    with neither \<^verbatim>\<open>transformer_list\<close> nor \<^verbatim>\<open>steps\<close> among its keys; the error holds the
    class and the parameters.

  And only in such cases: when no collaborator raises this \<^verbatim>\<open>ValueError\<close>, a
  \<^verbatim>\<open>ValueError\<close> of the resolver at a node is the first or the second case at this node,
  or the third in the form the code tests it (the key resolves to a container, both
  membership tests on the value are false and the value is neither a list nor a tuple),
  or it is the \<^verbatim>\<open>ValueError\<close> that resolving one of the node's children raised.
\<close>

theorem structural_value_errors:
  "(length kvs \<noteq> 1 \<longrightarrow>
      build_step env (VDict kvs) =
        (Inl (ValueError (SingleKey (map fst kvs))), VDict kvs, []))
 \<and> (type_of node \<noteq> TStr \<and> type_of node \<noteq> TDict \<longrightarrow>
      build_step env node = (Inl (ValueError (BadStep (type_of node))), node, []))
 \<and> (locate env k = Inr cls \<and> (cls = FeatureUnion \<or> cls = Pipeline)
      \<and> map_of ps (VStr ''transformer_list'') = None \<and> map_of ps (VStr ''steps'') = None \<longrightarrow>
      build_step env (VDict [(VStr k, VDict ps)]) =
        (Inl (ValueError (InvalidParams cls (VDict ps))), VDict [(VStr k, VDict ps)],
         [Locate k]))
 \<and> ((\<forall>s. locate env s \<noteq> Inl (ValueError m))
      \<and> (\<forall>c a kw. construct env c a kw \<noteq> Inl (ValueError m))
      \<and> fst (build_step env step) = Inl (ValueError m) \<longrightarrow>
      (\<exists>kvs. step = VDict kvs \<and> length kvs \<noteq> 1 \<and> m = SingleKey (map fst kvs))
    \<or> (type_of step \<noteq> TStr \<and> type_of step \<noteq> TDict \<and> m = BadStep (type_of step))
    \<or> (\<exists>k params cls. step = VDict [(VStr k, params)] \<and> locate env k = Inr cls
         \<and> (cls = FeatureUnion \<or> cls = Pipeline)
         \<and> py_in ''transformer_list'' params = Inr False
         \<and> py_in ''steps'' params = Inr False
         \<and> type_of params \<noteq> TTuple \<and> type_of params \<noteq> TList
         \<and> m = InvalidParams cls params)
    \<or> (\<exists>k params d xs x. step = VDict [(VStr k, params)]
         \<and> (py_getitem params ''transformer_list'' = Inr d
             \<or> py_getitem params ''steps'' = Inr d \<or> d = params)
         \<and> py_iter d = Inr xs \<and> x \<in> set xs
         \<and> fst (build_step env x) = Inl (ValueError m)))"
proof (intro conjI impI)
  assume "length kvs \<noteq> 1"
  then show "build_step env (VDict kvs) =
      (Inl (ValueError (SingleKey (map fst kvs))), VDict kvs, [])"
    by (rule build_step_keys)
next
  assume "type_of node \<noteq> TStr \<and> type_of node \<noteq> TDict"
  then show "build_step env node = (Inl (ValueError (BadStep (type_of node))), node, [])"
    by (simp add: build_step_other)
next
  assume a: "locate env k = Inr cls \<and> (cls = FeatureUnion \<or> cls = Pipeline)
      \<and> map_of ps (VStr ''transformer_list'') = None \<and> map_of ps (VStr ''steps'') = None"
  then have "py_in ''transformer_list'' (VDict ps) = Inr False"
    and "py_in ''steps'' (VDict ps) = Inr False"
    by (simp_all add: map_of_eq_None_iff)
  with a show "build_step env (VDict [(VStr k, VDict ps)]) =
      (Inl (ValueError (InvalidParams cls (VDict ps))), VDict [(VStr k, VDict ps)], [Locate k])"
    by (intro build_step_container_invalid) simp_all
next
  assume a: "(\<forall>s. locate env s \<noteq> Inl (ValueError m))
      \<and> (\<forall>c a kw. construct env c a kw \<noteq> Inl (ValueError m))
      \<and> fst (build_step env step) = Inl (ValueError m)"
  then have loc: "\<And>s. locate env s \<noteq> Inl (ValueError m)"
    and con: "\<And>c a kw. construct env c a kw \<noteq> Inl (ValueError m)"
    and err: "fst (build_step env step) = Inl (ValueError m)"
    by simp_all
  from build_step_ValueError [OF loc con err]
  show "(\<exists>kvs. step = VDict kvs \<and> length kvs \<noteq> 1 \<and> m = SingleKey (map fst kvs))
    \<or> (type_of step \<noteq> TStr \<and> type_of step \<noteq> TDict \<and> m = BadStep (type_of step))
    \<or> (\<exists>k params cls. step = VDict [(VStr k, params)] \<and> locate env k = Inr cls
         \<and> (cls = FeatureUnion \<or> cls = Pipeline)
         \<and> py_in ''transformer_list'' params = Inr False
         \<and> py_in ''steps'' params = Inr False
         \<and> type_of params \<noteq> TTuple \<and> type_of params \<noteq> TList
         \<and> m = InvalidParams cls params)
    \<or> (\<exists>k params d xs x. step = VDict [(VStr k, params)]
         \<and> (py_getitem params ''transformer_list'' = Inr d
             \<or> py_getitem params ''steps'' = Inr d \<or> d = params)
         \<and> py_iter d = Inr xs \<and> x \<in> set xs
         \<and> fst (build_step env x) = Inl (ValueError m))" .
qed

theorem structural_value_errors_witness:
  "length [(VStr ''TypeA'', VDict []), (VStr ''TypeB'', VDict [])] \<noteq> 1
 \<and> build_step fake_registry (VDict [(VStr ''TypeA'', VDict []), (VStr ''TypeB'', VDict [])]) =
     (Inl (ValueError (SingleKey [VStr ''TypeA'', VStr ''TypeB''])),
      VDict [(VStr ''TypeA'', VDict []), (VStr ''TypeB'', VDict [])], [])
 \<and> build_step fake_registry (VInt 3) = (Inl (ValueError (BadStep TInt)), VInt 3, [])
 \<and> locate fake_registry ''sklearn.pipeline.Pipeline'' = Inr Pipeline
 \<and> build_step fake_registry
      (VDict [(VStr ''sklearn.pipeline.Pipeline'', VDict [(VStr ''memory'', VNone)])]) =
     (Inl (ValueError (InvalidParams Pipeline (VDict [(VStr ''memory'', VNone)]))),
      VDict [(VStr ''sklearn.pipeline.Pipeline'', VDict [(VStr ''memory'', VNone)])],
      [Locate ''sklearn.pipeline.Pipeline''])
 \<and> fst (build_step fake_registry
      (VDict [(VStr ''sklearn.pipeline.Pipeline'', VDict [(VStr ''steps'', VList [VInt 3])])])) =
     Inl (ValueError (BadStep TInt))
 \<and> (\<exists>d xs x. py_getitem (VDict [(VStr ''steps'', VList [VInt 3])]) ''steps'' = Inr d
       \<and> py_iter d = Inr xs \<and> x \<in> set xs
       \<and> fst (build_step fake_registry x) = Inl (ValueError (BadStep TInt)))"
proof -
  let ?two = "[(VStr ''TypeA'', VDict []), (VStr ''TypeB'', VDict [])]"
  let ?ps = "[(VStr ''memory'', VNone)]"
  let ?step = "VDict [(VStr ''sklearn.pipeline.Pipeline'', VDict [(VStr ''steps'', VList [VInt 3])])]"
  have loc: "locate fake_registry s \<noteq> Inl e" for s e
    by (simp add: fake_registry_def)
  have con: "construct fake_registry c a kw \<noteq> Inl e" for c a kw e
    by (simp add: fake_registry_def)
  have pipe: "locate fake_registry ''sklearn.pipeline.Pipeline'' = Inr Pipeline"
    by (simp add: fake_registry_def)
  have err: "fst (build_step fake_registry ?step) = Inl (ValueError (BadStep TInt))"
    by code_simp
  note inst = structural_value_errors [of ?two fake_registry "VInt 3"
      "''sklearn.pipeline.Pipeline''" Pipeline ?ps "BadStep TInt" ?step]
  from inst have one: "build_step fake_registry (VDict ?two) =
      (Inl (ValueError (SingleKey [VStr ''TypeA'', VStr ''TypeB''])), VDict ?two, [])"
    by simp
  from inst have two: "build_step fake_registry (VInt 3) =
      (Inl (ValueError (BadStep TInt)), VInt 3, [])"
    by simp
  from inst pipe have three: "build_step fake_registry
      (VDict [(VStr ''sklearn.pipeline.Pipeline'', VDict ?ps)]) =
     (Inl (ValueError (InvalidParams Pipeline (VDict ?ps))),
      VDict [(VStr ''sklearn.pipeline.Pipeline'', VDict ?ps)],
      [Locate ''sklearn.pipeline.Pipeline''])"
    by simp
  from inst loc con err have four:
    "\<exists>d xs x. py_getitem (VDict [(VStr ''steps'', VList [VInt 3])]) ''steps'' = Inr d
       \<and> py_iter d = Inr xs \<and> x \<in> set xs
       \<and> fst (build_step fake_registry x) = Inl (ValueError (BadStep TInt))"
    by auto
  from one two three four pipe err show ?thesis
    by simp
qed

text \<open>
  Claim C6 as the specification states it fails in both directions. The empty mapping
  has no more than one key, and is rejected with this error all the same. A container
  whose value is \<^verbatim>\<open>None\<close> has neither a children parameter nor the shape of a sequence,
  and the error is not this one: \<^verbatim>\<open>'transformer_list' in None\<close> raises a \<^verbatim>\<open>TypeError\<close>
  before the \<^verbatim>\<open>else\<close> branch with the \<^verbatim>\<open>ValueError\<close> is reached.
\<close>

theorem value_error_not_as_listed:
  "build_step fake_registry (VDict []) = (Inl (ValueError (SingleKey [])), VDict [], [])
 \<and> build_step fake_registry (VDict [(VStr ''sklearn.pipeline.Pipeline'', VNone)]) =
     (Inl TypeError, VDict [(VStr ''sklearn.pipeline.Pipeline'', VNone)],
      [Locate ''sklearn.pipeline.Pipeline''])"
  by code_simp

section \<open>Where the code departs from its specification\<close>

text \<open>
  Claim C9 says that a step whose value is absent is built with no argument. The code
  reads the value with \<^verbatim>\<open>step.get(import_str, dict())\<close>, and \<open>import_str\<close> is a key of
  \<open>step\<close>: the default is never taken. For \<^verbatim>\<open>{'TypeA': None}\<close> the parameters are
  \<^verbatim>\<open>None\<close>, \<^verbatim>\<open>StepClass(**None)\<close> raises a \<^verbatim>\<open>TypeError\<close> and no object is constructed,
  where \<^verbatim>\<open>{'TypeA': {}}\<close> gives \<^verbatim>\<open>TypeA()\<close>.
\<close>

theorem absent_params_type_error:
  "build_step fake_registry (VDict [(VStr ''TypeA'', VNone)]) =
     (Inl TypeError, VDict [(VStr ''TypeA'', VNone)], [Locate ''TypeA''])
   \<and> build_step fake_registry (VDict [(VStr ''TypeA'', VDict [])]) =
     (Inr (VObj ''TypeA'' [] []), VDict [(VStr ''TypeA'', VDict [])],
      [Locate ''TypeA'', Construct ''TypeA'' [] []])"
  by code_simp

text \<open>
  Claim C8 says that a translation leaves its input as it was. The code assigns the
  built children into the parameter dict of the step,
  \<^verbatim>\<open>params['steps'] = _build_branch(params['steps'], None)\<close>, and this dict is part of
  the caller's definition: after the call, the definition holds the list of labeled
  objects where it held the list of child definitions.
\<close>

theorem input_definition_overwritten:
  "pipeline_from_definition fake_registry example_definition =
     (Inr (VObj ''sklearn.pipeline.Pipeline'' []
            [(''steps'', VList [VTuple [VStr ''step_0'', VObj ''TypeA'' [] []]])]),
      VDict [(VStr ''sklearn.pipeline.Pipeline'',
              VDict [(VStr ''steps'', VList [VTuple [VStr ''step_0'', VObj ''TypeA'' [] []]])])],
      [Locate ''sklearn.pipeline.Pipeline'', Locate ''TypeA'', Construct ''TypeA'' [] [],
       Construct ''sklearn.pipeline.Pipeline'' []
         [(''steps'', VList [VTuple [VStr ''step_0'', VObj ''TypeA'' [] []]])]])
   \<and> fst (snd (pipeline_from_definition fake_registry example_definition)) \<noteq> example_definition"
  by code_simp

text \<open>
  Claim C7 says that translating the same definition twice gives the same object graph
  twice. The first translation succeeds and overwrites the children of the definition
  (see C8); the second translation of the same definition then finds a tuple
  \<^verbatim>\<open>('step_0', obj)\<close> where a step is expected and raises the \<^verbatim>\<open>ValueError\<close> for a step
  that is neither a string nor a dict.
\<close>

theorem second_translation_fails:
  "fst (pipeline_from_definition fake_registry example_definition) =
     Inr (VObj ''sklearn.pipeline.Pipeline'' []
           [(''steps'', VList [VTuple [VStr ''step_0'', VObj ''TypeA'' [] []]])])
   \<and> fst (pipeline_from_definition fake_registry
            (fst (snd (pipeline_from_definition fake_registry example_definition)))) =
     Inl (ValueError (BadStep TTuple))"
  by code_simp

end
